theory Spec2Isabelle
  imports Main "HOL-Library.Word"
begin

section \<open>JavaScript strings and values\<close>

text \<open>
  A JavaScript string is a sequence of UTF-16 code units. String literals of the source
  are ASCII; \<open>js ''abc''\<close> is the literal \<open>"abc"\<close> as a sequence of code units.
\<close>

type_synonym code_unit = "16 word"
type_synonym js_string = "code_unit list"

abbreviation js :: "string \<Rightarrow> js_string" where
  "js s \<equiv> map of_char s"

type_synonym ref = nat

text \<open>
  The values that flow through the program. An \<open>Object\<close> is a reference into the heap
  of the world (below); what the object is, is decided there. Numbers, symbols and
  bigints take the same branches as the other primitives everywhere in this program
  and are left out.
\<close>

datatype jsval = Undefined | Null | Boolean bool | String js_string | Object ref

text \<open>What a \<open>throw\<close> carries: a \<open>TypeError\<close> of the runtime (calling or reading through
  something that is not there), or any value raised by a collaborator.\<close>

datatype thrown = TypeError | Thrown jsval

text \<open>String conversion, as a template literal \<open>`${v}`\<close> applies it.\<close>

fun to_string :: "jsval \<Rightarrow> js_string" where
  "to_string Undefined = js ''undefined''"
| "to_string Null = js ''null''"
| "to_string (Boolean b) = (if b then js ''true'' else js ''false'')"
| "to_string (String s) = s"
| "to_string (Object r) = js ''[object Object]''"

section \<open>Regular expressions\<close>

text \<open>
  The fragment of JavaScript regular expressions (no flags) that the source uses:
  literal characters, \<open>.\<close>, \<open>\w\<close>, a greedy \<open>+\<close> on one of these, capture groups,
  concatenation, and the anchors \<open>^\<close> and \<open>$\<close>, which without the \<open>m\<close> flag stand for
  the start and the end of the input.
\<close>

definition word_char :: "code_unit \<Rightarrow> bool" where
  "word_char c \<longleftrightarrow>
     (0x41 \<le> c \<and> c \<le> 0x5A) \<or> (0x61 \<le> c \<and> c \<le> 0x7A) \<or> (0x30 \<le> c \<and> c \<le> 0x39) \<or> c = 0x5F"

definition line_terminator :: "code_unit \<Rightarrow> bool" where
  "line_terminator c \<longleftrightarrow> c = 0x0A \<or> c = 0x0D \<or> c = 0x2028 \<or> c = 0x2029"

datatype char_class = Literal code_unit | Dot | WordChar

fun in_class :: "char_class \<Rightarrow> code_unit \<Rightarrow> bool" where
  "in_class (Literal l) c = (c = l)"
| "in_class Dot c = (\<not> line_terminator c)"
| "in_class WordChar c = word_char c"

datatype regex =
    Atom char_class
  | Lits js_string
  | Plus char_class
  | Group nat regex
  | Seq regex regex
  | Bol
  | Eol

text \<open>
  A state of the matcher: the input before the current position, the input after it,
  and the text of the capture groups closed so far.
\<close>

record mstate =
  consumed :: js_string
  rest :: js_string
  captures :: "(nat \<times> js_string) list"

text \<open>
  \<open>c+\<close> is greedy: from a position it offers every non-empty run of \<open>c\<close>, the longest
  first.
\<close>

fun plus_runs :: "char_class \<Rightarrow> js_string \<Rightarrow> js_string \<Rightarrow> (js_string \<times> js_string) list" where
  "plus_runs c b [] = []"
| "plus_runs c b (x # xs) =
     (if in_class c x then plus_runs c (b @ [x]) xs @ [(b @ [x], xs)] else [])"

text \<open>
  The backtracking matcher: all the ways in which the expression matches at the
  state, in the order in which backtracking tries them. The first one is the match.
\<close>

fun matches :: "regex \<Rightarrow> mstate \<Rightarrow> mstate list" where
  "matches (Atom c) s =
     (case rest s of
        [] \<Rightarrow> []
      | x # xs \<Rightarrow> if in_class c x then [s\<lparr>consumed := consumed s @ [x], rest := xs\<rparr>] else [])"
| "matches (Lits l) s =
     (if take (length l) (rest s) = l
      then [s\<lparr>consumed := consumed s @ l, rest := drop (length l) (rest s)\<rparr>] else [])"
| "matches (Plus c) s =
     map (\<lambda>(b, a). s\<lparr>consumed := b, rest := a\<rparr>) (plus_runs c (consumed s) (rest s))"
| "matches (Group n r) s =
     map (\<lambda>s'. s'\<lparr>captures := (n, drop (length (consumed s)) (consumed s')) # captures s'\<rparr>)
       (matches r s)"
| "matches (Seq r1 r2) s = concat (map (matches r2) (matches r1 s))"
| "matches Bol s = (if consumed s = [] then [s] else [])"
| "matches Eol s = (if rest s = [] then [s] else [])"

text \<open>
  \<open>RegExp.prototype.exec\<close> of a regular expression without the \<open>g\<close> and \<open>y\<close> flags:
  the match is tried at index 0, then 1, and so on up to the length of the input;
  \<open>None\<close> is JavaScript's \<open>null\<close>.
\<close>

fun exec_from :: "regex \<Rightarrow> js_string \<Rightarrow> js_string \<Rightarrow> mstate option" where
  "exec_from r b [] =
     (case matches r \<lparr>consumed = b, rest = [], captures = []\<rparr> of
        m # _ \<Rightarrow> Some m
      | [] \<Rightarrow> None)"
| "exec_from r b (x # xs) =
     (case matches r \<lparr>consumed = b, rest = x # xs, captures = []\<rparr> of
        m # _ \<Rightarrow> Some m
      | [] \<Rightarrow> exec_from r (b @ [x]) xs)"

definition regex_exec :: "regex \<Rightarrow> js_string \<Rightarrow> mstate option" where
  "regex_exec r s = exec_from r [] s"

text \<open>\<open>match[n]\<close>: the text of group \<open>n\<close>, \<open>undefined\<close> when the group took no part.\<close>

definition group :: "mstate \<Rightarrow> nat \<Rightarrow> jsval" where
  "group m n = (case map_of (captures m) n of Some g \<Rightarrow> String g | None \<Rightarrow> Undefined)"

section \<open>Service identifier\<close>

text \<open>The regular expression literal \<open>/^(\w+)\.googleapis.com$/\<close> of \<open>identifyService\<close>.
  The dot between \<open>googleapis\<close> and \<open>com\<close> is not escaped in the source.\<close>

definition service_regex :: regex where
  "service_regex =
     Seq Bol (Seq (Group 1 (Plus WordChar)) (Seq (Atom (Literal 0x2E))
       (Seq (Lits (js ''googleapis'')) (Seq (Atom Dot) (Seq (Lits (js ''com'')) Eol)))))"

definition identifyService :: "js_string \<Rightarrow> jsval" where
  "identifyService servicePath =
     (case regex_exec service_regex servicePath of
        Some match \<Rightarrow> group match 1
      | None \<Rightarrow> String servicePath)"

text \<open>
  The pattern as the specification writes it, \<open>^\w+\.googleapis\.com$\<close>, with both dots
  escaped; a string matches it when \<open>exec\<close> finds a match.
\<close>

definition spec_regex :: regex where
  "spec_regex =
     Seq Bol (Seq (Plus WordChar) (Seq (Atom (Literal 0x2E))
       (Seq (Lits (js ''googleapis'')) (Seq (Atom (Literal 0x2E)) (Seq (Lits (js ''com'')) Eol)))))"

definition matches_spec_pattern :: "js_string \<Rightarrow> bool" where
  "matches_spec_pattern s \<longleftrightarrow> regex_exec spec_regex s \<noteq> None"

section \<open>The tracing client and the event emitters\<close>

text \<open>
  A callback registered on an event emitter. The program creates one kind of closure
  for this purpose, the arrow function \<open>() => { if (span) { span.finish(); } }\<close>,
  which captures \<open>span\<close>: \<open>SpanFinisher span\<close>. \<open>Foreign\<close> stands for the callbacks
  of other code on the same emitter; they return normally and leave the tracing
  state alone.
\<close>

datatype listener = SpanFinisher "nat option" | Foreign nat

text \<open>
  Heap objects: a plain object with its data properties (none of them callable), or
  an event emitter with the listeners registered on it, each under its event name,
  in the order of registration.
\<close>

datatype obj = Plain "(js_string \<times> jsval) list" | EventEmitter "(js_string \<times> listener) list"

record span =
  description :: js_string
  operation :: js_string
  parent :: nat
  finish_calls :: nat

text \<open>
  The state outside the program: for each tracing client the transaction on its
  scope (if any), the spans started so far, the heap, and the state of the RPC
  library, about which nothing is assumed.
\<close>

record 'r world =
  scope_transaction :: "ref \<Rightarrow> nat option"
  spans :: "span list"
  heap :: "ref \<Rightarrow> obj option"
  rpc :: 'r

text \<open>Modelled from the spec: the tracing client of section 6,
  \<open>getScope().getTransaction()\<close>, \<open>Transaction.startChild({ description, op })\<close> and
  \<open>Span.finish()\<close>; only their type declarations are imported by the source. A span is
  known by its index in \<open>spans\<close>.\<close>

definition getTransaction :: "ref \<Rightarrow> 'r world \<Rightarrow> nat option" where
  "getTransaction client w = scope_transaction w client"

definition startChild :: "nat \<Rightarrow> js_string \<Rightarrow> js_string \<Rightarrow> 'r world \<Rightarrow> nat \<times> 'r world" where
  "startChild transaction d p w =
     (length (spans w),
      w\<lparr>spans := spans w @
        [\<lparr>description = d, operation = p, parent = transaction, finish_calls = 0\<rparr>]\<rparr>)"

definition finish :: "nat \<Rightarrow> 'r world \<Rightarrow> 'r world" where
  "finish i w =
     (if i < length (spans w)
      then w\<lparr>spans := (spans w)[i := (spans w ! i)\<lparr>finish_calls := Suc (finish_calls (spans w ! i))\<rparr>]\<rparr>
      else w)"

text \<open>Property access \<open>v?.name\<close> on a value, for a data property.\<close>

definition get_property :: "'r world \<Rightarrow> jsval \<Rightarrow> js_string \<Rightarrow> jsval" where
  "get_property w v name =
     (case v of
        Object r \<Rightarrow>
          (case heap w r of
             Some (Plain props) \<Rightarrow> (case map_of props name of Some x \<Rightarrow> x | None \<Rightarrow> Undefined)
           | _ \<Rightarrow> Undefined)
      | _ \<Rightarrow> Undefined)"

text \<open>\<open>typeof ret?.on === 'function'\<close>: of the values of the model, the event emitters
  have a callable \<open>on\<close>; primitives, plain objects and the objects that the heap does not
  describe have none.\<close>

definition has_callable_on :: "'r world \<Rightarrow> jsval \<Rightarrow> bool" where
  "has_callable_on w ret =
     (case ret of
        Object r \<Rightarrow> (case heap w r of Some (EventEmitter ls) \<Rightarrow> True | _ \<Rightarrow> False)
      | _ \<Rightarrow> False)"

text \<open>Modelled from the spec: the event-capable handle of sections 4.3 and 6, which is
  an \<open>EventEmitter\<close> of Node.js: \<open>on\<close> appends the listener, \<open>emit\<close> calls the listeners
  registered for the event, in the order of registration. Like the operations of the
  tracing client, they return normally.\<close>

definition emitter_on :: "jsval \<Rightarrow> js_string \<Rightarrow> listener \<Rightarrow> 'r world \<Rightarrow> 'r world" where
  "emitter_on ret event l w =
     (case ret of
        Object r \<Rightarrow>
          (case heap w r of
             Some (EventEmitter ls) \<Rightarrow> w\<lparr>heap := (heap w)(r \<mapsto> EventEmitter (ls @ [(event, l)]))\<rparr>
           | _ \<Rightarrow> w)
      | _ \<Rightarrow> w)"

fun run_listener :: "listener \<Rightarrow> 'r world \<Rightarrow> 'r world" where
  "run_listener (SpanFinisher None) w = w"
| "run_listener (SpanFinisher (Some span)) w = finish span w"
| "run_listener (Foreign k) w = w"

definition registered :: "(js_string \<times> listener) list \<Rightarrow> js_string \<Rightarrow> listener list" where
  "registered ls event = map snd (filter (\<lambda>(e, l). e = event) ls)"

definition emit :: "ref \<Rightarrow> js_string \<Rightarrow> 'r world \<Rightarrow> 'r world" where
  "emit r event w =
     (case heap w r of
        Some (EventEmitter ls) \<Rightarrow> foldl (\<lambda>w l. run_listener l w) w (registered ls event)
      | _ \<Rightarrow> w)"

text \<open>A sequence of events emitted by one emitter, one after the other.\<close>

definition emit_all :: "ref \<Rightarrow> js_string list \<Rightarrow> 'r world \<Rightarrow> 'r world" where
  "emit_all r events w = foldl (\<lambda>w event. emit r event w) w events"

text \<open>No listener refers to a span that has not been started.\<close>

definition listeners_wf :: "'r world \<Rightarrow> ref \<Rightarrow> bool" where
  "listeners_wf w r =
     (case heap w r of
        Some (EventEmitter ls) \<Rightarrow>
          list_all (\<lambda>(e, l). case l of SpanFinisher (Some i) \<Rightarrow> i < length (spans w) | _ \<Rightarrow> True) ls
      | _ \<Rightarrow> True)"

section \<open>Stubs and their methods\<close>

text \<open>A call: receiver, arguments and world in; a thrown value or the returned value,
  and the world, out.\<close>

type_synonym 'r call = "jsval \<Rightarrow> jsval list \<Rightarrow> 'r world \<Rightarrow> (thrown + jsval) \<times> 'r world"

text \<open>
  What a property of a stub holds: a value that is not callable; a method of the RPC
  library (\<open>GrpcFunctionObject\<close>: \<open>requestStream\<close>, \<open>responseStream\<close>, \<open>originalName\<close> and
  the function itself); or the arrow function that \<open>fillGrpcFunction\<close> builds, with
  the variables it captures: \<open>client\<close>, \<open>stub\<close>, \<open>callType\<close>, \<open>methodName\<close>,
  \<open>serviceIdentifier\<close> and \<open>orig\<close>.
\<close>

datatype 'r property =
    Value jsval
  | GrpcFunctionObject bool bool js_string "'r call"
  | Instrumented "ref option" ref js_string js_string jsval "'r property"

text \<open>\<open>funcObj.requestStream\<close> and \<open>funcObj.responseStream\<close>, as conditions. The arrow
  function has no such properties: \<open>undefined\<close>, which is falsy.\<close>

fun requestStream :: "'r property \<Rightarrow> bool" where
  "requestStream (GrpcFunctionObject rq rs n f) = rq"
| "requestStream (Instrumented c s t m i f) = False"
| "requestStream (Value v) = False"

fun responseStream :: "'r property \<Rightarrow> bool" where
  "responseStream (GrpcFunctionObject rq rs n f) = rs"
| "responseStream (Instrumented c s t m i f) = False"
| "responseStream (Value v) = False"

text \<open>A stub: the reference by which it is known, its own properties, and the
  enumerable properties of its prototype, both in property order.\<close>

record 'r stub =
  self :: ref
  own :: "(js_string \<times> 'r property) list"
  prototype :: "(js_string \<times> 'r property) list"

text \<open>\<open>stub[methodName]\<close>: own properties first, then the prototype.\<close>

definition stub_get :: "'r stub \<Rightarrow> js_string \<Rightarrow> 'r property" where
  "stub_get stub methodName =
     (case map_of (own stub) methodName of
        Some p \<Rightarrow> p
      | None \<Rightarrow> (case map_of (prototype stub) methodName of Some p \<Rightarrow> p | None \<Rightarrow> Value Undefined))"

fun assign :: "'k \<Rightarrow> 'v \<Rightarrow> ('k \<times> 'v) list \<Rightarrow> ('k \<times> 'v) list" where
  "assign k v [] = [(k, v)]"
| "assign k v ((k', v') # ps) = (if k' = k then (k, v) # ps else (k', v') # assign k v ps)"

text \<open>\<open>stub[methodName] = p\<close>: an own property is written, the prototype is not.\<close>

definition stub_set :: "'r stub \<Rightarrow> js_string \<Rightarrow> 'r property \<Rightarrow> 'r stub" where
  "stub_set stub methodName p = stub\<lparr>own := assign methodName p (own stub)\<rparr>"

text \<open>Modelled from the spec: \<open>fill(source, name, replacementFactory)\<close> of the utilities
  package, which is not among the sources; by sections 4.1 and 4.3 it replaces
  \<open>source[name]\<close> by what the factory makes of the original. The first two arguments
  say how a property of this kind of object is read and written.\<close>

definition fill :: "('o \<Rightarrow> 'n \<Rightarrow> 'f) \<Rightarrow> ('o \<Rightarrow> 'n \<Rightarrow> 'f \<Rightarrow> 'o) \<Rightarrow> 'o \<Rightarrow> 'n \<Rightarrow> ('f \<Rightarrow> 'f) \<Rightarrow> 'o" where
  "fill read write source name replacementFactory =
     write source name (replacementFactory (read source name))"

text \<open>\<open>typeof funcObj === 'function'\<close>.\<close>

fun is_function :: "'r property \<Rightarrow> bool" where
  "is_function (Value v) = False"
| "is_function (GrpcFunctionObject rq rs n f) = True"
| "is_function (Instrumented c s t m i f) = True"

definition fillGrpcFunction :: "ref option \<Rightarrow> 'r stub \<Rightarrow> jsval \<Rightarrow> js_string \<Rightarrow> 'r stub" where
  "fillGrpcFunction client stub serviceIdentifier methodName =
     (let funcObj = stub_get stub methodName in
      if \<not> is_function funcObj then stub
      else
        let callType =
          (if \<not> requestStream funcObj \<and> \<not> responseStream funcObj then js ''unary call''
           else if requestStream funcObj \<and> \<not> responseStream funcObj then js ''client stream''
           else if \<not> requestStream funcObj \<and> responseStream funcObj then js ''server stream''
           else js ''bidi stream'')
        in if callType \<noteq> js ''unary call'' then stub
           else fill stub_get stub_set stub methodName
             (\<lambda>orig. Instrumented client (self stub) callType methodName serviceIdentifier orig))"

text \<open>
  Calling what a property holds. For the arrow function of \<open>fillGrpcFunction\<close> this is
  its body; it has no \<open>this\<close> of its own and does not use the one of the call.
\<close>

fun invoke :: "'r property \<Rightarrow> 'r call" where
  "invoke (Value v) this args w = (Inl TypeError, w)"
| "invoke (GrpcFunctionObject rq rs n f) this args w = f this args w"
| "invoke (Instrumented client stub callType methodName serviceIdentifier orig) this args w =
     (case invoke orig (Object stub) args w of
        (Inl e, w1) \<Rightarrow> (Inl e, w1)
      | (Inr ret, w1) \<Rightarrow>
          if \<not> has_callable_on w1 ret then (Inr ret, w1)
          else
            (case client of
               None \<Rightarrow> (Inl TypeError, w1)
             | Some c \<Rightarrow>
                 (case getTransaction c w1 of
                    None \<Rightarrow> (Inr ret, emitter_on ret (js ''status'') (SpanFinisher None) w1)
                  | Some transaction \<Rightarrow>
                      (case startChild transaction
                              (callType @ js '' '' @ methodName)
                              (js ''gcloud.grpc.'' @ to_string serviceIdentifier) w1 of
                         (span, w2) \<Rightarrow>
                           (Inr ret, emitter_on ret (js ''status'') (SpanFinisher (Some span)) w2)))))"

section \<open>Stub creation\<close>

text \<open>The state in which a promise ends up; \<open>Pending\<close> is a promise that never settles.\<close>

datatype 'a promise = Pending | Fulfilled 'a | Rejected thrown

text \<open>A call of a stub-creation function throws or returns a promise of a stub.\<close>

datatype 'r created = Threw thrown | Returned "'r stub promise"

type_synonym 'r create_call = "jsval \<Rightarrow> jsval list \<Rightarrow> 'r world \<Rightarrow> 'r created \<times> 'r world"

text \<open>\<open>createStub\<close> of the library, or the async function that \<open>_wrapCreateStub\<close> returns,
  with the variables it captures: \<open>client\<close> and \<open>origCreate\<close>.\<close>

datatype 'r create_fn =
    CreateStubFunc "'r create_call"
  | WrappedCreateStub "ref option" "'r create_fn"

text \<open>\<open>args[i]\<close>, \<open>undefined\<close> beyond the arguments given.\<close>

definition arg :: "jsval list \<Rightarrow> nat \<Rightarrow> jsval" where
  "arg args i = (if i < length args then args ! i else Undefined)"

text \<open>The options as \<open>StubOptions\<close> declares them, \<open>servicePath?: string\<close>: the service
  path that the wrapper reads is a string, or it is absent.\<close>

definition typed_options :: "'r world \<Rightarrow> jsval list \<Rightarrow> bool" where
  "typed_options w args =
     (case get_property w (arg args 1) (js ''servicePath'') of
        Boolean b \<Rightarrow> False
      | Object r \<Rightarrow> False
      | _ \<Rightarrow> True)"

text \<open>\<open>identifyService(servicePath)\<close> on a value: \<open>servicePath.match\<close> is a function on
  strings only.\<close>

definition identifyService_of :: "jsval \<Rightarrow> thrown + jsval" where
  "identifyService_of servicePath =
     (case servicePath of String s \<Rightarrow> Inr (identifyService s) | _ \<Rightarrow> Inl TypeError)"

text \<open>
  Calling a stub-creation function. An async function does not throw: what its body
  throws rejects the promise it returns; a promise it returns, or awaits, decides the
  state of its own.
\<close>

fun call_create :: "'r create_fn \<Rightarrow> 'r create_call" where
  "call_create (CreateStubFunc f) this args w = f this args w"
| "call_create (WrappedCreateStub client origCreate) this args w =
     (let servicePath = get_property w (arg args 1) (js ''servicePath'') in
      if servicePath = Null \<or> servicePath = Undefined then
        (case call_create origCreate this args w of
           (Threw e, w1) \<Rightarrow> (Returned (Rejected e), w1)
         | (Returned p, w1) \<Rightarrow> (Returned p, w1))
      else
        (case identifyService_of servicePath of
           Inl e \<Rightarrow> (Returned (Rejected e), w)
         | Inr serviceIdentifier \<Rightarrow>
             (case call_create origCreate this args w of
                (Threw e, w1) \<Rightarrow> (Returned (Rejected e), w1)
              | (Returned Pending, w1) \<Rightarrow> (Returned Pending, w1)
              | (Returned (Rejected e), w1) \<Rightarrow> (Returned (Rejected e), w1)
              | (Returned (Fulfilled stub), w1) \<Rightarrow>
                  (Returned (Fulfilled
                     (foldl (\<lambda>stub methodName. fillGrpcFunction client stub serviceIdentifier methodName)
                        stub (map fst (prototype stub)))), w1))))"

section \<open>The integration\<close>

record installer =
  inst_name :: js_string
  inst_client :: "ref option"
  inst_optional :: bool

text \<open>The argument of the constructor, \<open>{ optional?: boolean }\<close>; the argument itself may
  be left out.\<close>

record options =
  optional :: "bool option"

definition GoogleCloudGrpc :: "options option \<Rightarrow> installer" where
  "GoogleCloudGrpc given =
     (let options = (case given of None \<Rightarrow> \<lparr>optional = None\<rparr> | Some opts \<Rightarrow> opts) in
      \<lparr>inst_name = js ''GoogleCloudGrpc'',
       inst_client = None,
       inst_optional = (case optional options of Some b \<Rightarrow> b \<or> False | None \<Rightarrow> False)\<rparr>)"

definition wrapCreateStub :: "installer \<Rightarrow> 'r create_fn \<Rightarrow> 'r create_fn" where
  "wrapCreateStub this origCreate = WrappedCreateStub (inst_client this) origCreate"

text \<open>
  The module \<open>google-gax\<close>, as far as the program touches it:
  \<open>GrpcClient.prototype.createStub\<close>. What \<open>require('google-gax')\<close> does is a state of
  the process: it throws, or it yields the module.
\<close>

record 'r gax_module =
  createStub :: "'r create_fn"

type_synonym 'r modules = "thrown + 'r gax_module"

definition install :: "installer \<Rightarrow> ref \<Rightarrow> 'r modules \<Rightarrow> (thrown + unit) \<times> installer \<times> 'r modules" where
  "install this client modules =
     (let this = this\<lparr>inst_client := Some client\<rparr> in
      case modules of
        Inr gaxModule \<Rightarrow>
          (Inr (), this,
           Inr (fill (\<lambda>m name. createStub m) (\<lambda>m name f. m\<lparr>createStub := f\<rparr>)
                  gaxModule (js ''createStub'') (wrapCreateStub this)))
      | Inl e \<Rightarrow> if \<not> inst_optional this then (Inl e, this, modules) else (Inr (), this, modules))"

section \<open>A small system\<close>

text \<open>
  Concrete data on which the theorems below are instantiated. The state of the RPC
  library counts the calls that reach it. Client 1 has transaction 7 on its scope,
  client 2 has none. Object 5 is an event emitter, the call handle, on which the
  library has listeners of its own; object 6 is an options object with a service
  path, object 8 one without.
\<close>

definition example_world :: "nat world" where
  "example_world =
     \<lparr>scope_transaction = (\<lambda>c. if c = 1 then Some 7 else None),
      spans = [],
      heap = (\<lambda>r. if r = 5 then Some (EventEmitter [(js ''status'', Foreign 0), (js ''error'', Foreign 1)])
                   else if r = 6 then Some (Plain [(js ''servicePath'', String (js ''pubsub.googleapis.com''))])
                   else if r = 8 then Some (Plain [(js ''port'', String (js ''443''))])
                   else None),
      rpc = 0\<rparr>"

text \<open>\<open>publish\<close> is unary and returns the handle; \<open>echo\<close> is unary and returns its
  receiver; \<open>close\<close> is unary and returns \<open>undefined\<close>; \<open>failing\<close> is unary and throws;
  \<open>streamingPull\<close> streams in both directions.\<close>

definition publish :: "nat property" where
  "publish = GrpcFunctionObject False False (js ''Publish'')
     (\<lambda>this args w. (Inr (Object 5), w\<lparr>rpc := Suc (rpc w)\<rparr>))"

definition echo :: "nat property" where
  "echo = GrpcFunctionObject False False (js ''Echo'')
     (\<lambda>this args w. (Inr this, w\<lparr>rpc := Suc (rpc w)\<rparr>))"

definition close :: "nat property" where
  "close = GrpcFunctionObject False False (js ''Close'')
     (\<lambda>this args w. (Inr Undefined, w\<lparr>rpc := Suc (rpc w)\<rparr>))"

definition failing :: "nat property" where
  "failing = GrpcFunctionObject False False (js ''Failing'')
     (\<lambda>this args w. (Inl (Thrown (String (js ''UNAVAILABLE''))), w\<lparr>rpc := Suc (rpc w)\<rparr>))"

definition streamingPull :: "nat property" where
  "streamingPull = GrpcFunctionObject True True (js ''StreamingPull'')
     (\<lambda>this args w. (Inr (Object 5), w\<lparr>rpc := Suc (rpc w)\<rparr>))"

definition example_stub :: "nat stub" where
  "example_stub =
     \<lparr>self = 3,
      own = [(js ''timeout'', Value (String (js ''60s'')))],
      prototype = [(js ''publish'', publish), (js ''echo'', echo), (js ''close'', close),
                   (js ''failing'', failing), (js ''streamingPull'', streamingPull)]\<rparr>"

text \<open>Stub-creation functions of the library: one whose promise is fulfilled with the
  stub, one whose promise is rejected, one that throws, one whose promise never settles.\<close>

definition create_ok :: "nat create_fn" where
  "create_ok = CreateStubFunc
     (\<lambda>this args w. (Returned (Fulfilled example_stub), w\<lparr>rpc := Suc (rpc w)\<rparr>))"

definition create_rejecting :: "nat create_fn" where
  "create_rejecting = CreateStubFunc
     (\<lambda>this args w. (Returned (Rejected (Thrown (String (js ''no channel'')))), w\<lparr>rpc := Suc (rpc w)\<rparr>))"

definition create_throwing :: "nat create_fn" where
  "create_throwing = CreateStubFunc
     (\<lambda>this args w. (Threw (Thrown (String (js ''bad options''))), w\<lparr>rpc := Suc (rpc w)\<rparr>))"

definition create_pending :: "nat create_fn" where
  "create_pending = CreateStubFunc
     (\<lambda>this args w. (Returned Pending, w\<lparr>rpc := Suc (rpc w)\<rparr>))"

section \<open>Properties of the regular expressions\<close>

lemma concat_plus_runs:
  assumes "\<And>b x xs. in_class c x \<Longrightarrow> f (b, x # xs) = []"
  shows "concat (map f (plus_runs c b xs)) =
    (if takeWhile (in_class c) xs = [] then []
     else f (b @ takeWhile (in_class c) xs, dropWhile (in_class c) xs))"
proof (induction xs arbitrary: b)
  case Nil
  show ?case by simp
next
  case (Cons x xs)
  show ?case
  proof (cases "in_class c x")
    case False
    then show ?thesis by simp
  next
    case True
    show ?thesis
    proof (cases xs)
      case Nil
      with True show ?thesis by simp
    next
      case (Cons y ys)
      with True Cons.IH [of "b @ [x]"] assms [of y "b @ [x]" ys] show ?thesis
        by simp
    qed
  qed
qed

lemma exec_from_Bol_later:
  "b \<noteq> [] \<Longrightarrow> exec_from (Seq Bol r) b xs = None"
  by (induction xs arbitrary: b) simp_all

lemma regex_exec_anchored:
  "regex_exec (Seq Bol r) s =
     (case matches r \<lparr>consumed = [], rest = s, captures = []\<rparr> of [] \<Rightarrow> None | m # _ \<Rightarrow> Some m)"
  by (cases s) (simp_all add: regex_exec_def exec_from_Bol_later split: list.splits)

lemma dot_not_word: "\<not> word_char 0x2E"
  by (simp add: word_char_def)


lemma in_class_WordChar: "in_class WordChar = word_char"
  by (rule ext) simp

lemma matches_prefix_spec:
  "matches (Seq (Plus WordChar) (Seq (Atom (Literal 0x2E)) r))
       \<lparr>consumed = [], rest = s, captures = []\<rparr> =
     (if takeWhile word_char s = [] then []
      else matches (Seq (Atom (Literal 0x2E)) r)
        \<lparr>consumed = takeWhile word_char s, rest = dropWhile word_char s, captures = []\<rparr>)"
proof -
  let ?f = "\<lambda>(b, a). matches (Seq (Atom (Literal 0x2E)) r) \<lparr>consumed = b, rest = a, captures = []\<rparr>"
  have stop: "?f (b, x # xs) = []" if "in_class WordChar x" for b x xs
    using that dot_not_word by auto
  have "matches (Seq (Plus WordChar) (Seq (Atom (Literal 0x2E)) r))
       \<lparr>consumed = [], rest = s, captures = []\<rparr> = concat (map ?f (plus_runs WordChar [] s))"
    by (simp add: comp_def case_prod_unfold)
  also have "\<dots> = (if takeWhile (in_class WordChar) s = [] then []
     else ?f ([] @ takeWhile (in_class WordChar) s, dropWhile (in_class WordChar) s))"
    by (rule concat_plus_runs) (rule stop)
  finally show ?thesis
    by (simp add: in_class_WordChar)
qed

lemma matches_prefix_code:
  "matches (Seq (Group n (Plus WordChar)) (Seq (Atom (Literal 0x2E)) r))
       \<lparr>consumed = [], rest = s, captures = []\<rparr> =
     (if takeWhile word_char s = [] then []
      else matches (Seq (Atom (Literal 0x2E)) r)
        \<lparr>consumed = takeWhile word_char s, rest = dropWhile word_char s,
         captures = [(n, takeWhile word_char s)]\<rparr>)"
proof -
  let ?f = "\<lambda>(b, a). matches (Seq (Atom (Literal 0x2E)) r)
      \<lparr>consumed = b, rest = a, captures = [(n, b)]\<rparr>"
  have stop: "?f (b, x # xs) = []" if "in_class WordChar x" for b x xs
    using that dot_not_word by auto
  have "matches (Seq (Group n (Plus WordChar)) (Seq (Atom (Literal 0x2E)) r))
       \<lparr>consumed = [], rest = s, captures = []\<rparr> = concat (map ?f (plus_runs WordChar [] s))"
    by (simp add: comp_def case_prod_unfold)
  also have "\<dots> = (if takeWhile (in_class WordChar) s = [] then []
     else ?f ([] @ takeWhile (in_class WordChar) s, dropWhile (in_class WordChar) s))"
    by (rule concat_plus_runs) (rule stop)
  finally show ?thesis
    by (simp add: in_class_WordChar)
qed


lemma Seq_Atom_nonempty:
  assumes "matches (Seq (Atom c) r) st \<noteq> []"
  obtains x t where "rest st = x # t" and "in_class c x"
    and "matches r (st\<lparr>consumed := consumed st @ [x], rest := t\<rparr>) \<noteq> []"
  using assms by (cases "rest st") (auto split: if_splits)

lemma Seq_Lits_nonempty:
  assumes "matches (Seq (Lits l) r) st \<noteq> []"
  obtains t where "rest st = l @ t"
    and "matches r (st\<lparr>consumed := consumed st @ l, rest := t\<rparr>) \<noteq> []"
proof -
  from assms have tk: "take (length l) (rest st) = l"
    and m: "matches r (st\<lparr>consumed := consumed st @ l, rest := drop (length l) (rest st)\<rparr>) \<noteq> []"
    by (auto split: if_splits)
  from tk have "rest st = l @ drop (length l) (rest st)"
    by (metis append_take_drop_id)
  with m that show thesis by blast
qed

lemma Eol_nonempty: "matches Eol st \<noteq> [] \<Longrightarrow> rest st = []"
  by (auto split: if_splits)

lemma spec_tail_shape:
  assumes "matches (Seq (Atom (Literal 0x2E)) (Seq (Lits (js ''googleapis''))
      (Seq (Atom (Literal 0x2E)) (Seq (Lits (js ''com'')) Eol)))) st \<noteq> []"
  shows "rest st = js ''.googleapis.com''"
proof -
  from assms obtain x1 t1 st1 where 1: "rest st = x1 # t1" "in_class (Literal 0x2E) x1"
    and st1: "st1 = st\<lparr>consumed := consumed st @ [x1], rest := t1\<rparr>"
    and m1: "matches (Seq (Lits (js ''googleapis''))
      (Seq (Atom (Literal 0x2E)) (Seq (Lits (js ''com'')) Eol))) st1 \<noteq> []"
    by (blast elim: Seq_Atom_nonempty)
  from m1 obtain t2 st2 where 2: "rest st1 = js ''googleapis'' @ t2"
    and st2: "st2 = st1\<lparr>consumed := consumed st1 @ js ''googleapis'', rest := t2\<rparr>"
    and m2: "matches (Seq (Atom (Literal 0x2E)) (Seq (Lits (js ''com'')) Eol)) st2 \<noteq> []"
    by (blast elim: Seq_Lits_nonempty)
  from m2 obtain x3 t3 st3 where 3: "rest st2 = x3 # t3" "in_class (Literal 0x2E) x3"
    and st3: "st3 = st2\<lparr>consumed := consumed st2 @ [x3], rest := t3\<rparr>"
    and m3: "matches (Seq (Lits (js ''com'')) Eol) st3 \<noteq> []"
    by (blast elim: Seq_Atom_nonempty)
  from m3 obtain t4 st4 where 4: "rest st3 = js ''com'' @ t4"
    and st4: "st4 = st3\<lparr>consumed := consumed st3 @ js ''com'', rest := t4\<rparr>"
    and m4: "matches Eol st4 \<noteq> []"
    by (blast elim: Seq_Lits_nonempty)
  from m4 have "rest st4 = []" by (rule Eol_nonempty)
  with st4 have "t4 = []" by simp
  with 4 st3 have "t3 = js ''com''" by simp
  with 3 st2 have "t2 = 0x2E # js ''com''" by simp
  with 2 st1 have "t1 = js ''googleapis'' @ 0x2E # js ''com''" by simp
  with 1 show ?thesis by simp
qed

lemma takeWhile_word_dot:
  "list_all word_char p \<Longrightarrow> takeWhile word_char (p @ 0x2E # t) = p"
  "list_all word_char p \<Longrightarrow> dropWhile word_char (p @ 0x2E # t) = 0x2E # t"
  using dot_not_word by (induction p) auto

lemma regex_exec_anchored_nonempty:
  "regex_exec (Seq Bol r) s \<noteq> None \<Longrightarrow>
     matches r \<lparr>consumed = [], rest = s, captures = []\<rparr> \<noteq> []"
  by (simp add: regex_exec_anchored split: list.splits)

lemma prefix_spec_nonempty:
  assumes "matches (Seq (Plus WordChar) (Seq (Atom (Literal 0x2E)) r))
       \<lparr>consumed = [], rest = s, captures = []\<rparr> \<noteq> []"
  shows "takeWhile word_char s \<noteq> []"
    and "matches (Seq (Atom (Literal 0x2E)) r)
        \<lparr>consumed = takeWhile word_char s, rest = dropWhile word_char s, captures = []\<rparr> \<noteq> []"
  using assms unfolding matches_prefix_spec
  by (cases "takeWhile word_char s = []"; simp only: if_True if_False simp_thms)+

lemma spec_pattern_shape:
  assumes "matches_spec_pattern s"
  shows "takeWhile word_char s \<noteq> [] \<and> s = takeWhile word_char s @ js ''.googleapis.com''"
proof -
  let ?t = "Seq (Lits (js ''googleapis'')) (Seq (Atom (Literal 0x2E)) (Seq (Lits (js ''com'')) Eol))"
  let ?st = "\<lparr>consumed = takeWhile word_char s, rest = dropWhile word_char s, captures = []\<rparr>"
  from assms have "regex_exec (Seq Bol (Seq (Plus WordChar) (Seq (Atom (Literal 0x2E)) ?t))) s \<noteq> None"
    unfolding matches_spec_pattern_def spec_regex_def .
  then have ne: "matches (Seq (Plus WordChar) (Seq (Atom (Literal 0x2E)) ?t))
       \<lparr>consumed = [], rest = s, captures = []\<rparr> \<noteq> []"
    by (rule regex_exec_anchored_nonempty)
  then have p: "takeWhile word_char s \<noteq> []"
    by (rule prefix_spec_nonempty)
  from ne have "matches (Seq (Atom (Literal 0x2E)) ?t) ?st \<noteq> []"
    by (rule prefix_spec_nonempty)
  then have "rest ?st = js ''.googleapis.com''"
    by (rule spec_tail_shape)
  then have "dropWhile word_char s = js ''.googleapis.com''" by simp
  then have "s = takeWhile word_char s @ js ''.googleapis.com''"
    by (metis takeWhile_dropWhile_id)
  with p show ?thesis by simp
qed

lemma identifyService_googleapis:
  assumes "p \<noteq> []" and "list_all word_char p"
  shows "identifyService (p @ js ''.googleapis.com'') = String p"
proof -
  have tw: "takeWhile word_char (p @ js ''.googleapis.com'') = p"
    and dw: "dropWhile word_char (p @ js ''.googleapis.com'') = js ''.googleapis.com''"
    using takeWhile_word_dot [OF assms(2), of "js ''googleapis.com''"] by simp_all
  show ?thesis
    unfolding identifyService_def service_regex_def regex_exec_anchored matches_prefix_code tw dw
    using assms(1) by (simp add: group_def line_terminator_def)
qed


section \<open>The service identifier\<close>

text \<open>
  Claim C5. A service path that matches \<open>^\w+\.googleapis\.com$\<close>, that is, a non-empty
  run of word characters followed by \<open>.googleapis.com\<close> and nothing else, is mapped by
  \<open>identifyService\<close> to that run of word characters, the text of capture group 1.
\<close>

theorem identifyService_matching:
  assumes "matches_spec_pattern s"
  shows "identifyService s = String (takeWhile word_char s)
    \<and> takeWhile word_char s \<noteq> []
    \<and> s = takeWhile word_char s @ js ''.googleapis.com''"
proof -
  from assms have sh: "takeWhile word_char s \<noteq> []"
      "s = takeWhile word_char s @ js ''.googleapis.com''"
    using spec_pattern_shape by blast+
  have "list_all word_char (takeWhile word_char s)"
    by (simp add: list_all_iff) (meson set_takeWhileD)
  with sh(1) have "identifyService (takeWhile word_char s @ js ''.googleapis.com'')
      = String (takeWhile word_char s)"
    by (rule identifyService_googleapis)
  with sh show ?thesis by simp
qed

theorem identifyService_matching_witness:
  "matches_spec_pattern (js ''pubsub.googleapis.com'')
   \<and> identifyService (js ''pubsub.googleapis.com'') = String (js ''pubsub'')"
proof -
  have m: "matches_spec_pattern (js ''pubsub.googleapis.com'')"
    by (simp add: matches_spec_pattern_def regex_exec_def spec_regex_def word_char_def)
  have "takeWhile word_char (js ''pubsub.googleapis.com'') = js ''pubsub''"
    by (simp add: word_char_def)
  with identifyService_matching [OF m] m show ?thesis by simp
qed

text \<open>
  Claim C6 says that every service path outside \<open>^\w+\.googleapis\.com$\<close> is returned
  unchanged. The source leaves the dot before \<open>com\<close> unescaped, so it also accepts any
  other character there: \<open>"pubsub.googleapisXcom"\<close> is outside the pattern, and
  \<open>identifyService\<close> returns \<open>"pubsub"\<close> for it.
\<close>

theorem identifyService_unescaped_dot:
  "\<not> matches_spec_pattern (js ''pubsub.googleapisXcom'')
   \<and> identifyService (js ''pubsub.googleapisXcom'') = String (js ''pubsub'')"
  by (simp add: matches_spec_pattern_def spec_regex_def identifyService_def service_regex_def
      regex_exec_def group_def word_char_def line_terminator_def)

text \<open>Where the regular expression of the source finds no match, the service path is
  returned as it is; the example of the specification is such a path.\<close>

lemma identifyService_no_match:
  "regex_exec service_regex s = None \<Longrightarrow> identifyService s = String s"
  by (simp add: identifyService_def)

lemma identifyService_custom_endpoint:
  "identifyService (js ''custom.endpoint.example'') = String (js ''custom.endpoint.example'')"
  by (simp add: identifyService_def service_regex_def regex_exec_def word_char_def)

section \<open>Wrapping a method\<close>

lemma map_of_assign: "map_of (assign k v ps) k = Some v"
  by (induction ps) auto

lemma stub_get_set: "stub_get (stub_set stub m p) m = p"
  by (simp add: stub_get_def stub_set_def map_of_assign)

lemma fillGrpcFunction_unary:
  assumes "is_function (stub_get stub m)" "\<not> requestStream (stub_get stub m)"
    "\<not> responseStream (stub_get stub m)"
  shows "fillGrpcFunction client stub sid m =
    stub_set stub m (Instrumented client (self stub) (js ''unary call'') m sid (stub_get stub m))"
  using assms by (simp add: fillGrpcFunction_def fill_def Let_def)

lemma fillGrpcFunction_other:
  assumes "\<not> is_function (stub_get stub m) \<or> requestStream (stub_get stub m)
    \<or> responseStream (stub_get stub m)"
  shows "fillGrpcFunction client stub sid m = stub"
  using assms by (auto simp add: fillGrpcFunction_def Let_def)

lemma wrapped_unary:
  assumes "is_function (stub_get stub m)" "\<not> requestStream (stub_get stub m)"
    "\<not> responseStream (stub_get stub m)"
  shows "stub_get (fillGrpcFunction client stub sid m) m =
    Instrumented client (self stub) (js ''unary call'') m sid (stub_get stub m)"
  using assms by (simp add: fillGrpcFunction_unary stub_get_set)


lemma finish_heap: "heap (finish i w) = heap w"
  by (simp add: finish_def)

lemma finish_length: "length (spans (finish i w)) = length (spans w)"
  by (simp add: finish_def)

lemma finish_calls_finish:
  "n < length (spans w) \<Longrightarrow>
     finish_calls (spans (finish i w) ! n) = finish_calls (spans w ! n) + (if i = n then 1 else 0)"
  by (simp add: finish_def nth_list_update)

lemma run_listener_heap: "heap (run_listener l w) = heap w"
  by (cases "(l, w)" rule: run_listener.cases) (simp_all add: finish_heap)

lemma run_listener_length: "length (spans (run_listener l w)) = length (spans w)"
  by (cases "(l, w)" rule: run_listener.cases) (simp_all add: finish_length)

lemma run_listener_calls:
  "n < length (spans w) \<Longrightarrow>
     finish_calls (spans (run_listener l w) ! n) =
     finish_calls (spans w ! n) + (if l = SpanFinisher (Some n) then 1 else 0)"
  by (cases "(l, w)" rule: run_listener.cases) (simp_all add: finish_calls_finish)

lemma run_listeners:
  "n < length (spans w) \<Longrightarrow>
     heap (foldl (\<lambda>w l. run_listener l w) w ls) = heap w
     \<and> length (spans (foldl (\<lambda>w l. run_listener l w) w ls)) = length (spans w)
     \<and> finish_calls (spans (foldl (\<lambda>w l. run_listener l w) w ls) ! n) =
         finish_calls (spans w ! n) + count_list ls (SpanFinisher (Some n))"
proof (induction ls arbitrary: w)
  case Nil
  show ?case by simp
next
  case (Cons l ls)
  have "n < length (spans (run_listener l w))"
    using Cons.prems by (simp add: run_listener_length)
  from Cons.IH [OF this] Cons.prems show ?case
    by (simp add: run_listener_heap run_listener_length run_listener_calls)
qed

lemma emit_emitter:
  assumes "heap w h = Some (EventEmitter ls)" and "n < length (spans w)"
  shows "heap (emit h event w) = heap w"
    and "length (spans (emit h event w)) = length (spans w)"
    and "finish_calls (spans (emit h event w) ! n) =
         finish_calls (spans w ! n) + count_list (registered ls event) (SpanFinisher (Some n))"
  using assms run_listeners [of n w "registered ls event"]
  by (simp_all add: emit_def registered_def)

lemma emit_all_emitter:
  assumes "heap w h = Some (EventEmitter ls)" and "n < length (spans w)"
  shows "heap (emit_all h events w) = heap w
     \<and> length (spans (emit_all h events w)) = length (spans w)
     \<and> finish_calls (spans (emit_all h events w) ! n) =
         finish_calls (spans w ! n)
         + (\<Sum>event\<leftarrow>events. count_list (registered ls event) (SpanFinisher (Some n)))"
  using assms
proof (induction events arbitrary: w)
  case Nil
  show ?case by (simp add: emit_all_def)
next
  case (Cons event events)
  have 1: "heap (emit h event w) h = Some (EventEmitter ls)"
    and 2: "n < length (spans (emit h event w))"
    using Cons.prems emit_emitter [OF Cons.prems] by simp_all
  have unfold: "emit_all h (event # events) w = emit_all h events (emit h event w)"
    by (simp add: emit_all_def)
  from Cons.IH [OF 1 2] emit_emitter [OF Cons.prems, of event] show ?case
    by (simp add: unfold)
qed

lemma run_listeners_length:
  "length (spans (foldl (\<lambda>w l. run_listener l w) w ls)) = length (spans w)"
  by (induction ls arbitrary: w) (simp_all add: run_listener_length)

lemma emit_length: "length (spans (emit h event w)) = length (spans w)"
  by (simp add: emit_def run_listeners_length split: option.splits obj.splits)

lemma emit_all_length: "length (spans (emit_all h events w)) = length (spans w)"
  unfolding emit_all_def by (induction events arbitrary: w) (simp_all add: emit_length)

lemma registered_append:
  "registered (ls @ [(e, l)]) event = registered ls event @ (if e = event then [l] else [])"
  by (simp add: registered_def)

lemma wf_no_new_span:
  assumes "list_all (\<lambda>(e, l). case l of SpanFinisher (Some i) \<Rightarrow> i < n | _ \<Rightarrow> True) ls"
  shows "count_list (registered ls event) (SpanFinisher (Some n)) = 0"
  using assms by (induction ls) (auto simp: registered_def)

lemma count_status_events:
  assumes "\<And>event. count_list (registered ls event) l = 0"
  shows "(\<Sum>event\<leftarrow>events. count_list (registered (ls @ [(s, l)]) event) l) = count_list events s"
  by (induction events) (simp_all add: registered_append assms)

lemma listeners_wf_emitter:
  "heap w h = Some (EventEmitter ls) \<Longrightarrow> listeners_wf w h \<Longrightarrow>
     list_all (\<lambda>(e, l). case l of SpanFinisher (Some i) \<Rightarrow> i < length (spans w) | _ \<Rightarrow> True) ls"
  by (simp add: listeners_wf_def)

lemma invoke_traced:
  assumes "invoke orig (Object stub) args w = (Inr (Object h), w1)"
    and "heap w1 h = Some (EventEmitter ls)"
    and "getTransaction c w1 = Some t"
  shows "invoke (Instrumented (Some c) stub callType m sid orig) this args w =
    (Inr (Object h),
     w1\<lparr>spans := spans w1 @ [\<lparr>description = callType @ js '' '' @ m,
            operation = js ''gcloud.grpc.'' @ to_string sid, parent = t, finish_calls = 0\<rparr>],
        heap := (heap w1)(h \<mapsto> EventEmitter (ls @ [(js ''status'', SpanFinisher (Some (length (spans w1))))]))\<rparr>)"
  using assms by (simp add: has_callable_on_def startChild_def emitter_on_def)

lemma invoke_untraced:
  assumes "invoke orig (Object stub) args w = (Inr (Object h), w1)"
    and "heap w1 h = Some (EventEmitter ls)"
    and "getTransaction c w1 = None"
  shows "invoke (Instrumented (Some c) stub callType m sid orig) this args w =
    (Inr (Object h),
     w1\<lparr>heap := (heap w1)(h \<mapsto> EventEmitter (ls @ [(js ''status'', SpanFinisher None)]))\<rparr>)"
  using assms by (simp add: has_callable_on_def emitter_on_def)


text \<open>
  Claim C1. Let a property of the stub hold a function whose \<open>requestStream\<close> and
  \<open>responseStream\<close> are both false, and let \<open>fillGrpcFunction\<close> wrap it. A call of the
  wrapper in which the original returns an event emitter \<open>h\<close> returns \<open>h\<close>. If the
  scope of the client holds a transaction when the original has returned, the call
  starts exactly one span, a child of that transaction with description
  \<open>"unary call <methodName>"\<close> and operation \<open>"gcloud.grpc.<serviceIdentifier>"\<close>, and
  whatever events \<open>h\<close> emits afterwards, \<open>finish\<close> has been called on that span once
  for each \<open>"status"\<close> among them: never before the first \<open>"status"\<close>, once with it. If
  the scope holds no transaction, no span is started, neither by the call nor by the
  events.
\<close>

theorem unary_call_span:
  assumes "is_function (stub_get stub methodName)"
    and "\<not> requestStream (stub_get stub methodName)"
    and "\<not> responseStream (stub_get stub methodName)"
    and "invoke (stub_get stub methodName) (Object (self stub)) args w = (Inr (Object h), w1)"
    and "heap w1 h = Some (EventEmitter ls)"
    and "listeners_wf w1 h"
  shows "let wrapped = stub_get (fillGrpcFunction (Some client) stub (String serviceIdentifier)
                         methodName) methodName;
             w2 = snd (invoke wrapped this args w)
         in fst (invoke wrapped this args w) = Inr (Object h) \<and>
            (case getTransaction client w1 of
               Some transaction \<Rightarrow>
                 spans w2 = spans w1 @
                   [\<lparr>description = js ''unary call '' @ methodName,
                     operation = js ''gcloud.grpc.'' @ serviceIdentifier,
                     parent = transaction, finish_calls = 0\<rparr>]
                 \<and> length (spans (emit_all h events w2)) = Suc (length (spans w1))
                 \<and> finish_calls (spans (emit_all h events w2) ! length (spans w1)) =
                     count_list events (js ''status'')
             | None \<Rightarrow>
                 spans w2 = spans w1
                 \<and> length (spans (emit_all h events w2)) = length (spans w1))"
proof -
  let ?n = "length (spans w1)"
  let ?wrapped = "stub_get (fillGrpcFunction (Some client) stub (String serviceIdentifier)
                         methodName) methodName"
  have wrapped: "?wrapped = Instrumented (Some client) (self stub) (js ''unary call'') methodName
      (String serviceIdentifier) (stub_get stub methodName)"
    using assms(1-3) by (rule wrapped_unary)
  have old: "count_list (registered ls event) (SpanFinisher (Some ?n)) = 0" for event
    using listeners_wf_emitter [OF assms(5,6)] by (rule wf_no_new_span)
  show ?thesis
  proof (cases "getTransaction client w1")
    case None
    let ?w2 = "w1\<lparr>heap := (heap w1)(h \<mapsto> EventEmitter (ls @ [(js ''status'', SpanFinisher None)]))\<rparr>"
    have call: "invoke ?wrapped this args w = (Inr (Object h), ?w2)"
      unfolding wrapped using assms(4,5) None by (rule invoke_untraced)
    have len: "length (spans (emit_all h events ?w2)) = length (spans w1)"
      by (simp add: emit_all_length)
    from None call len show ?thesis by simp
  next
    case (Some t)
    let ?w2 = "w1\<lparr>spans := spans w1 @ [\<lparr>description = js ''unary call'' @ js '' '' @ methodName,
            operation = js ''gcloud.grpc.'' @ to_string (String serviceIdentifier), parent = t, finish_calls = 0\<rparr>],
        heap := (heap w1)(h \<mapsto> EventEmitter (ls @ [(js ''status'', SpanFinisher (Some ?n))]))\<rparr>"
    have call: "invoke ?wrapped this args w = (Inr (Object h), ?w2)"
      unfolding wrapped using assms(4,5) Some by (rule invoke_traced)
    have h2: "heap ?w2 h = Some (EventEmitter (ls @ [(js ''status'', SpanFinisher (Some ?n))]))"
      by simp
    have n2: "?n < length (spans ?w2)" by simp
    have cnt: "(\<Sum>event\<leftarrow>events. count_list (registered (ls @ [(js ''status'', SpanFinisher (Some ?n))]) event)
        (SpanFinisher (Some ?n))) = count_list events (js ''status'')"
      using old by (rule count_status_events)
    from emit_all_emitter [OF h2 n2, of events] cnt
    have "length (spans (emit_all h events ?w2)) = Suc ?n"
      and "finish_calls (spans (emit_all h events ?w2) ! ?n) = count_list events (js ''status'')"
      by simp_all
    with Some call show ?thesis by simp
  qed
qed

theorem unary_call_span_witness:
  "let wrapped = stub_get (fillGrpcFunction (Some 1) example_stub (String (js ''pubsub''))
                   (js ''publish'')) (js ''publish'');
       w2 = snd (invoke wrapped Undefined [] example_world)
   in is_function (stub_get example_stub (js ''publish''))
      \<and> \<not> requestStream (stub_get example_stub (js ''publish''))
      \<and> \<not> responseStream (stub_get example_stub (js ''publish''))
      \<and> invoke (stub_get example_stub (js ''publish'')) (Object (self example_stub)) []
            example_world = (Inr (Object 5), example_world\<lparr>rpc := Suc 0\<rparr>)
      \<and> heap (example_world\<lparr>rpc := Suc 0\<rparr>) 5 =
          Some (EventEmitter [(js ''status'', Foreign 0), (js ''error'', Foreign 1)])
      \<and> listeners_wf (example_world\<lparr>rpc := Suc 0\<rparr>) 5
      \<and> fst (invoke wrapped Undefined [] example_world) = Inr (Object 5)
      \<and> spans w2 =
          [\<lparr>description = js ''unary call publish'', operation = js ''gcloud.grpc.pubsub'',
            parent = 7, finish_calls = 0\<rparr>]
      \<and> finish_calls (spans (emit_all 5 [js ''metadata'', js ''data''] w2) ! 0) = 0
      \<and> finish_calls (spans (emit_all 5 [js ''metadata'', js ''data'', js ''status''] w2) ! 0) = 1"
proof -
  let ?w1 = "example_world\<lparr>rpc := Suc 0\<rparr>"
  have 1: "is_function (stub_get example_stub (js ''publish''))"
    and 2: "\<not> requestStream (stub_get example_stub (js ''publish''))"
    and 3: "\<not> responseStream (stub_get example_stub (js ''publish''))"
    by (simp_all add: stub_get_def example_stub_def publish_def)
  have 4: "invoke (stub_get example_stub (js ''publish'')) (Object (self example_stub)) []
      example_world = (Inr (Object 5), ?w1)"
    by (simp add: stub_get_def example_stub_def publish_def example_world_def)
  have 5: "heap ?w1 5 = Some (EventEmitter [(js ''status'', Foreign 0), (js ''error'', Foreign 1)])"
    by (simp add: example_world_def)
  have 6: "listeners_wf ?w1 5"
    by (simp add: listeners_wf_def example_world_def)
  have t: "getTransaction 1 ?w1 = Some 7" and s: "spans ?w1 = []"
    by (simp_all add: getTransaction_def example_world_def)
  from unary_call_span [OF 1 2 3 4 5 6, of 1 "js ''pubsub''" Undefined "[js ''metadata'', js ''data'']"]
    unary_call_span [OF 1 2 3 4 5 6, of 1 "js ''pubsub''" Undefined
      "[js ''metadata'', js ''data'', js ''status'']"]
  show ?thesis
    using 1 2 3 4 5 6 t s by (simp add: Let_def)
qed

lemma emitter_on_rpc: "rpc (emitter_on ret event l w) = rpc w"
  by (simp add: emitter_on_def split: jsval.splits option.splits obj.splits)

lemma invoke_Instrumented_result:
  "fst (invoke (Instrumented (Some c) stub callType m sid orig) this args w) =
     fst (invoke orig (Object stub) args w)
   \<and> rpc (snd (invoke (Instrumented (Some c) stub callType m sid orig) this args w)) =
     rpc (snd (invoke orig (Object stub) args w))"
  by (cases "invoke orig (Object stub) args w")
    (auto simp add: emitter_on_rpc startChild_def split: sum.splits option.splits)

text \<open>
  Claim C7. When the original of a wrapped unary method returns something without a
  callable \<open>on\<close> (\<open>undefined\<close>, \<open>null\<close>, another primitive, an object that is no event
  emitter), the wrapper returns that value and leaves the world as the original left
  it: no span is started, no listener is registered, nothing is thrown.
\<close>

theorem wrapper_shape_mismatch:
  assumes "is_function (stub_get stub methodName)"
    and "\<not> requestStream (stub_get stub methodName)"
    and "\<not> responseStream (stub_get stub methodName)"
    and "invoke (stub_get stub methodName) (Object (self stub)) args w = (Inr ret, w1)"
    and "\<not> has_callable_on w1 ret"
  shows "invoke (stub_get (fillGrpcFunction client stub serviceIdentifier methodName) methodName)
           this args w = (Inr ret, w1)"
  using assms(4,5) by (simp add: wrapped_unary [OF assms(1-3)])

theorem wrapper_shape_mismatch_witness:
  "is_function (stub_get example_stub (js ''close''))
   \<and> \<not> requestStream (stub_get example_stub (js ''close''))
   \<and> \<not> responseStream (stub_get example_stub (js ''close''))
   \<and> invoke (stub_get example_stub (js ''close'')) (Object (self example_stub)) [] example_world
        = (Inr Undefined, example_world\<lparr>rpc := Suc 0\<rparr>)
   \<and> \<not> has_callable_on (example_world\<lparr>rpc := Suc 0\<rparr>) Undefined
   \<and> invoke (stub_get (fillGrpcFunction (Some 1) example_stub (String (js ''pubsub''))
                (js ''close'')) (js ''close'')) (Object 3) [] example_world
        = (Inr Undefined, example_world\<lparr>rpc := Suc 0\<rparr>)"
proof -
  have 1: "is_function (stub_get example_stub (js ''close''))"
    and 2: "\<not> requestStream (stub_get example_stub (js ''close''))"
    and 3: "\<not> responseStream (stub_get example_stub (js ''close''))"
    by (simp_all add: stub_get_def example_stub_def close_def)
  have 4: "invoke (stub_get example_stub (js ''close'')) (Object (self example_stub)) []
      example_world = (Inr Undefined, example_world\<lparr>rpc := Suc 0\<rparr>)"
    by (simp add: stub_get_def example_stub_def close_def example_world_def)
  have 5: "\<not> has_callable_on (example_world\<lparr>rpc := Suc 0\<rparr>) Undefined"
    by (simp add: has_callable_on_def)
  from wrapper_shape_mismatch [OF 1 2 3 4 5, of "Some 1" "String (js ''pubsub'')" "Object 3"]
  show ?thesis using 1 2 3 4 5 by simp
qed

text \<open>
  Claim C2. Where the property is not callable, or \<open>requestStream\<close> or \<open>responseStream\<close>
  of the function is true, \<open>fillGrpcFunction\<close> returns the stub as it was: the property
  still holds the original, so a call is the call of the original, and it starts no
  span of its own whatever the scope holds.
\<close>

theorem non_unary_untouched:
  assumes "\<not> is_function (stub_get stub methodName)
    \<or> requestStream (stub_get stub methodName) \<or> responseStream (stub_get stub methodName)"
  shows "fillGrpcFunction client stub serviceIdentifier methodName = stub
    \<and> invoke (stub_get (fillGrpcFunction client stub serviceIdentifier methodName) methodName)
          this args w = invoke (stub_get stub methodName) this args w"
  using assms by (simp add: fillGrpcFunction_other)

theorem non_unary_untouched_witness:
  "requestStream (stub_get example_stub (js ''streamingPull''))
   \<and> fillGrpcFunction (Some 1) example_stub (String (js ''pubsub'')) (js ''streamingPull'')
        = example_stub
   \<and> spans (snd (invoke (stub_get (fillGrpcFunction (Some 1) example_stub (String (js ''pubsub''))
        (js ''streamingPull'')) (js ''streamingPull'')) (Object 3) [] example_world)) = []
   \<and> \<not> is_function (stub_get example_stub (js ''timeout''))
   \<and> fillGrpcFunction (Some 1) example_stub (String (js ''pubsub'')) (js ''timeout'')
        = example_stub"
proof -
  have 1: "requestStream (stub_get example_stub (js ''streamingPull''))"
    by (simp add: stub_get_def example_stub_def streamingPull_def)
  have 2: "\<not> is_function (stub_get example_stub (js ''timeout''))"
    by (simp add: stub_get_def example_stub_def)
  have 3: "spans (snd (invoke (stub_get example_stub (js ''streamingPull'')) (Object 3) []
      example_world)) = []"
    by (simp add: stub_get_def example_stub_def streamingPull_def example_world_def)
  from non_unary_untouched [of example_stub "js ''streamingPull''" "Some 1"
      "String (js ''pubsub'')" "Object 3" "[]" example_world]
    non_unary_untouched [of example_stub "js ''timeout''" "Some 1"
      "String (js ''pubsub'')" "Object 3" "[]" example_world]
  show ?thesis using 1 2 3 by simp
qed

text \<open>
  Claim C10, amended. The wrapper of a unary method calls the original once, with the
  arguments it was given and with the stub as the receiver, and what the original
  returns or throws is what the wrapper returns or throws to its caller, at once. The
  receiver is the one of the wrapper's own call when the method is called on the
  stub, \<open>stub.method(...)\<close>.
\<close>

theorem wrapper_forwards_to_stub:
  assumes "is_function (stub_get stub methodName)"
    and "\<not> requestStream (stub_get stub methodName)"
    and "\<not> responseStream (stub_get stub methodName)"
  shows "let wrapped = stub_get (fillGrpcFunction (Some client) stub serviceIdentifier methodName)
                         methodName
         in fst (invoke wrapped this args w) =
              fst (invoke (stub_get stub methodName) (Object (self stub)) args w)
            \<and> rpc (snd (invoke wrapped this args w)) =
              rpc (snd (invoke (stub_get stub methodName) (Object (self stub)) args w))
            \<and> (this = Object (self stub) \<longrightarrow>
                 fst (invoke wrapped this args w) = fst (invoke (stub_get stub methodName) this args w))"
  unfolding wrapped_unary [OF assms] Let_def
  using invoke_Instrumented_result [of client "self stub" "js ''unary call''" methodName
      serviceIdentifier "stub_get stub methodName" this args w]
  by auto

theorem wrapper_forwards_to_stub_witness:
  "let wrapped = stub_get (fillGrpcFunction (Some 1) example_stub (String (js ''pubsub''))
                   (js ''publish'')) (js ''publish'')
   in is_function (stub_get example_stub (js ''publish''))
      \<and> \<not> requestStream (stub_get example_stub (js ''publish''))
      \<and> \<not> responseStream (stub_get example_stub (js ''publish''))
      \<and> fst (invoke wrapped (Object 3) [String (js ''hello'')] example_world) = Inr (Object 5)
      \<and> rpc (snd (invoke wrapped (Object 3) [String (js ''hello'')] example_world)) = 1"
proof -
  have 1: "is_function (stub_get example_stub (js ''publish''))"
    and 2: "\<not> requestStream (stub_get example_stub (js ''publish''))"
    and 3: "\<not> responseStream (stub_get example_stub (js ''publish''))"
    by (simp_all add: stub_get_def example_stub_def publish_def)
  have 4: "invoke (stub_get example_stub (js ''publish'')) (Object (self example_stub))
      [String (js ''hello'')] example_world = (Inr (Object 5), example_world\<lparr>rpc := Suc 0\<rparr>)"
    by (simp add: stub_get_def example_stub_def publish_def example_world_def)
  have 5: "self example_stub = 3"
    by (simp add: example_stub_def)
  from wrapper_forwards_to_stub [OF 1 2 3, of 1 "String (js ''pubsub'')" "Object 3"
      "[String (js ''hello'')]" example_world]
  show ?thesis using 1 2 3 4 5 by (simp add: Let_def)
qed

text \<open>
  Claim C10 as stated, with the receiver of the wrapper's call passed on, fails where
  the wrapper is called with another receiver: the arrow function takes \<open>stub\<close> from its
  environment, \<open>orig.apply(stub, args)\<close>. Called detached, with \<open>undefined\<close> as the
  receiver, the wrapped \<open>echo\<close> returns the stub; the original, called the same way,
  returns \<open>undefined\<close>.
\<close>

theorem wrapper_receiver_counterexample:
  "fst (invoke (stub_get (fillGrpcFunction (Some 1) example_stub (String (js ''pubsub''))
          (js ''echo'')) (js ''echo'')) Undefined [] example_world) = Inr (Object 3)
   \<and> fst (invoke (stub_get example_stub (js ''echo'')) Undefined [] example_world) = Inr Undefined
   \<and> fst (invoke (stub_get (fillGrpcFunction (Some 1) example_stub (String (js ''pubsub''))
          (js ''echo'')) (js ''echo'')) Undefined [] example_world)
       \<noteq> fst (invoke (stub_get example_stub (js ''echo'')) Undefined [] example_world)"
  by (simp add: fillGrpcFunction_def fill_def stub_get_def stub_set_def example_stub_def echo_def
      has_callable_on_def example_world_def Let_def)

section \<open>The patched stub creation and the installation\<close>

lemma install_loaded:
  "install this client (Inr gaxModule) =
     (Inr (), this\<lparr>inst_client := Some client\<rparr>,
      Inr (gaxModule\<lparr>createStub := WrappedCreateStub (Some client) (createStub gaxModule)\<rparr>))"
  by (simp add: install_def fill_def wrapCreateStub_def)

text \<open>With a service path, the patched function of the small system wraps the unary
  methods of the stub and leaves \<open>streamingPull\<close> as it is.\<close>

lemma install_then_create:
  "install (GoogleCloudGrpc None) 1 (Inr \<lparr>createStub = create_ok\<rparr>) = (Inr (), this', Inr gax')
   \<Longrightarrow> call_create (createStub gax') Undefined [Undefined, Object 6] example_world =
     (Returned (Fulfilled (example_stub\<lparr>own :=
        [(js ''timeout'', Value (String (js ''60s''))),
         (js ''publish'', Instrumented (Some 1) 3 (js ''unary call'') (js ''publish'')
            (String (js ''pubsub'')) publish),
         (js ''echo'', Instrumented (Some 1) 3 (js ''unary call'') (js ''echo'')
            (String (js ''pubsub'')) echo),
         (js ''close'', Instrumented (Some 1) 3 (js ''unary call'') (js ''close'')
            (String (js ''pubsub'')) close),
         (js ''failing'', Instrumented (Some 1) 3 (js ''unary call'') (js ''failing'')
            (String (js ''pubsub'')) failing)]\<rparr>)),
      example_world\<lparr>rpc := Suc 0\<rparr>)"
proof -
  assume "install (GoogleCloudGrpc None) 1 (Inr \<lparr>createStub = create_ok\<rparr>) = (Inr (), this', Inr gax')"
  then have gax: "createStub gax' = WrappedCreateStub (Some 1) create_ok"
    by (auto simp add: install_loaded)
  have sp: "get_property example_world (arg [Undefined, Object 6] 1) (js ''servicePath'')
      = String (js ''pubsub.googleapis.com'')"
    by (simp add: get_property_def arg_def example_world_def)
  have sid: "identifyService (js ''pubsub.googleapis.com'') = String (js ''pubsub'')"
    using identifyService_googleapis [of "js ''pubsub''"] by (simp add: word_char_def)
  have orig: "call_create create_ok Undefined [Undefined, Object 6] example_world =
      (Returned (Fulfilled example_stub), example_world\<lparr>rpc := Suc 0\<rparr>)"
    by (simp add: create_ok_def example_world_def)
  have fills: "foldl (\<lambda>stub methodName. fillGrpcFunction (Some 1) stub (String (js ''pubsub'')) methodName)
      example_stub (map fst (prototype example_stub)) =
    example_stub\<lparr>own :=
        [(js ''timeout'', Value (String (js ''60s''))),
         (js ''publish'', Instrumented (Some 1) 3 (js ''unary call'') (js ''publish'')
            (String (js ''pubsub'')) publish),
         (js ''echo'', Instrumented (Some 1) 3 (js ''unary call'') (js ''echo'')
            (String (js ''pubsub'')) echo),
         (js ''close'', Instrumented (Some 1) 3 (js ''unary call'') (js ''close'')
            (String (js ''pubsub'')) close),
         (js ''failing'', Instrumented (Some 1) 3 (js ''unary call'') (js ''failing'')
            (String (js ''pubsub'')) failing)]\<rparr>"
    by (simp add: example_stub_def fillGrpcFunction_def fill_def stub_get_def stub_set_def Let_def
        publish_def echo_def close_def failing_def streamingPull_def)
  show ?thesis
    unfolding gax using sp sid orig fills by (simp add: identifyService_of_def del: foldl.simps)
qed

text \<open>
  Claim C3. When the second argument has no \<open>servicePath\<close> (there is no such argument,
  it is \<open>null\<close> or \<open>undefined\<close>, or its \<open>servicePath\<close> is), the patched function calls
  the original once with the receiver and the arguments of its own call, and the
  promise that the original returns decides the result: a stub it is fulfilled with
  is the stub of the original, with no property replaced. Being an async function, it
  turns a throw of the original into the rejection of its promise.
\<close>

theorem no_servicePath_passthrough:
  assumes "get_property w (arg args 1) (js ''servicePath'') = Null
    \<or> get_property w (arg args 1) (js ''servicePath'') = Undefined"
  shows "call_create (wrapCreateStub this_inst origCreate) this args w =
    (case call_create origCreate this args w of
       (Threw e, w1) \<Rightarrow> (Returned (Rejected e), w1)
     | (Returned p, w1) \<Rightarrow> (Returned p, w1))"
  using assms by (auto simp add: wrapCreateStub_def Let_def)

theorem no_servicePath_passthrough_witness:
  "get_property example_world (arg [Undefined, Object 8] 1) (js ''servicePath'') = Undefined
   \<and> call_create (wrapCreateStub (GoogleCloudGrpc None\<lparr>inst_client := Some 1\<rparr>) create_ok)
        Undefined [Undefined, Object 8] example_world
      = (Returned (Fulfilled example_stub), example_world\<lparr>rpc := Suc 0\<rparr>)
   \<and> get_property example_world (arg [] 1) (js ''servicePath'') = Undefined
   \<and> call_create (wrapCreateStub (GoogleCloudGrpc None\<lparr>inst_client := Some 1\<rparr>) create_ok)
        Undefined [] example_world
      = (Returned (Fulfilled example_stub), example_world\<lparr>rpc := Suc 0\<rparr>)"
proof -
  have 1: "get_property example_world (arg [Undefined, Object 8] 1) (js ''servicePath'') = Undefined"
    by (simp add: get_property_def arg_def example_world_def)
  have 2: "get_property example_world (arg [] 1) (js ''servicePath'') = Undefined"
    by (simp add: get_property_def arg_def)
  have 3: "call_create create_ok Undefined as example_world =
      (Returned (Fulfilled example_stub), example_world\<lparr>rpc := Suc 0\<rparr>)" for as
    by (simp add: create_ok_def example_world_def)
  from no_servicePath_passthrough [of example_world "[Undefined, Object 8]"
        "GoogleCloudGrpc None\<lparr>inst_client := Some 1\<rparr>" create_ok Undefined]
    no_servicePath_passthrough [of example_world "[]"
        "GoogleCloudGrpc None\<lparr>inst_client := Some 1\<rparr>" create_ok Undefined]
  show ?thesis using 1 2 by (simp add: 3)
qed

text \<open>
  Claim C4. When \<open>require('google-gax')\<close> throws \<open>e\<close>: \<open>install\<close> on an integration
  constructed with \<open>optional: true\<close> returns normally; constructed with
  \<open>optional: false\<close>, with \<open>{}\<close> or with no argument, it throws \<open>e\<close>. In both cases the
  module is as unavailable as before: there is no \<open>createStub\<close> that could have been
  patched, so no stub is wrapped.
\<close>

theorem install_library_missing:
  "fst (install (GoogleCloudGrpc given) client (Inl e :: 'r modules)) =
     (if given = Some \<lparr>optional = Some True\<rparr> then Inr () else Inl e)
   \<and> snd (snd (install (GoogleCloudGrpc given) client (Inl e :: 'r modules))) = Inl e"
proof (cases given)
  case None
  then show ?thesis by (simp add: install_def GoogleCloudGrpc_def)
next
  case (Some opts)
  then show ?thesis
    by (cases opts; cases "optional opts") (auto simp add: install_def GoogleCloudGrpc_def Let_def)
qed

text \<open>
  Claim C9, amended. When the integration is optional and \<open>require('google-gax')\<close>
  throws, \<open>install\<close> returns normally and patches nothing; the one change of state is
  that the integration now holds the client, which \<open>install\<close> stores before it tries
  to load the library.
\<close>

theorem install_optional_suppressed:
  assumes "inst_optional this"
  shows "install this client (Inl e) = (Inr (), this\<lparr>inst_client := Some client\<rparr>, Inl e)"
  using assms by (simp add: install_def)

theorem install_optional_suppressed_witness:
  "inst_optional (GoogleCloudGrpc (Some \<lparr>optional = Some True\<rparr>))
   \<and> install (GoogleCloudGrpc (Some \<lparr>optional = Some True\<rparr>)) 1
        (Inl (Thrown (String (js ''Cannot find module'')))) =
      (Inr (),
       \<lparr>inst_name = js ''GoogleCloudGrpc'', inst_client = Some 1, inst_optional = True\<rparr>,
       Inl (Thrown (String (js ''Cannot find module''))) :: nat modules)"
proof -
  have 1: "inst_optional (GoogleCloudGrpc (Some \<lparr>optional = Some True\<rparr>))"
    by (simp add: GoogleCloudGrpc_def)
  from install_optional_suppressed [OF 1, of 1 "Thrown (String (js ''Cannot find module''))"]
  show ?thesis using 1 by (simp add: GoogleCloudGrpc_def)
qed

text \<open>
  Claim C9 as stated, with the state of the integration after the suppressed failure
  equal to its state before, fails: \<open>_client\<close> was unset before and is the client
  after.
\<close>

theorem install_state_counterexample:
  "fst (snd (install (GoogleCloudGrpc (Some \<lparr>optional = Some True\<rparr>)) 1
      (Inl (Thrown (String (js ''Cannot find module''))) :: nat modules)))
   \<noteq> GoogleCloudGrpc (Some \<lparr>optional = Some True\<rparr>)"
  by (simp add: install_def GoogleCloudGrpc_def)

text \<open>
  Claim C8. With options as \<open>StubOptions\<close> types them: when the original stub-creation
  function fails with \<open>e\<close>, by a rejected promise or by a throw, the promise of the
  patched one is rejected with the same \<open>e\<close>, after that one call of the original;
  when the promise of the original never settles, neither does the promise of the
  patched one, and whenever the promise of the patched one is fulfilled, the promise
  of the original is. When the original of a wrapped unary method throws \<open>e\<close>, the
  wrapper throws the same \<open>e\<close> and does nothing else.
\<close>

theorem failures_propagate:
  "(typed_options w args
      \<and> (call_create origCreate this args w = (Threw e, w1)
         \<or> call_create origCreate this args w = (Returned (Rejected e), w1))
      \<longrightarrow> call_create (wrapCreateStub this_inst origCreate) this args w = (Returned (Rejected e), w1))
   \<and> (typed_options w args \<and> call_create origCreate this args w = (Returned Pending, w1)
      \<longrightarrow> call_create (wrapCreateStub this_inst origCreate) this args w = (Returned Pending, w1))
   \<and> (is_function (stub_get stub methodName)
       \<and> \<not> requestStream (stub_get stub methodName) \<and> \<not> responseStream (stub_get stub methodName)
       \<and> invoke (stub_get stub methodName) (Object (self stub)) margs mw = (Inl e, mw1)
      \<longrightarrow> invoke (stub_get (fillGrpcFunction client stub serviceIdentifier methodName) methodName)
            mthis margs mw = (Inl e, mw1))
   \<and> (call_create (wrapCreateStub this_inst origCreate) this args w = (Returned (Fulfilled stub'), w1)
      \<longrightarrow> (\<exists>stub0. call_create origCreate this args w = (Returned (Fulfilled stub0), w1)))"
proof (intro conjI impI)
  assume a: "typed_options w args
      \<and> (call_create origCreate this args w = (Threw e, w1)
         \<or> call_create origCreate this args w = (Returned (Rejected e), w1))"
  then show "call_create (wrapCreateStub this_inst origCreate) this args w = (Returned (Rejected e), w1)"
    by (cases "get_property w (arg args 1) (js ''servicePath'')")
      (auto simp add: wrapCreateStub_def typed_options_def identifyService_of_def Let_def)
next
  assume a: "typed_options w args \<and> call_create origCreate this args w = (Returned Pending, w1)"
  then show "call_create (wrapCreateStub this_inst origCreate) this args w = (Returned Pending, w1)"
    by (cases "get_property w (arg args 1) (js ''servicePath'')")
      (auto simp add: wrapCreateStub_def typed_options_def identifyService_of_def Let_def)
next
  assume a: "is_function (stub_get stub methodName)
       \<and> \<not> requestStream (stub_get stub methodName) \<and> \<not> responseStream (stub_get stub methodName)
       \<and> invoke (stub_get stub methodName) (Object (self stub)) margs mw = (Inl e, mw1)"
  then have "stub_get (fillGrpcFunction client stub serviceIdentifier methodName) methodName =
    Instrumented client (self stub) (js ''unary call'') methodName serviceIdentifier (stub_get stub methodName)"
    by (simp add: wrapped_unary)
  with a show "invoke (stub_get (fillGrpcFunction client stub serviceIdentifier methodName) methodName)
            mthis margs mw = (Inl e, mw1)"
    by simp
next
  assume "call_create (wrapCreateStub this_inst origCreate) this args w
    = (Returned (Fulfilled stub'), w1)"
  then show "\<exists>stub0. call_create origCreate this args w = (Returned (Fulfilled stub0), w1)"
    by (auto simp add: wrapCreateStub_def Let_def
        split: if_splits sum.splits prod.splits created.splits promise.splits)
qed

theorem failures_propagate_witness:
  "typed_options example_world [Undefined, Object 6]
   \<and> call_create create_throwing Undefined [Undefined, Object 6] example_world =
        (Threw (Thrown (String (js ''bad options''))), example_world\<lparr>rpc := Suc 0\<rparr>)
   \<and> call_create (wrapCreateStub (GoogleCloudGrpc None\<lparr>inst_client := Some 1\<rparr>) create_throwing)
        Undefined [Undefined, Object 6] example_world =
        (Returned (Rejected (Thrown (String (js ''bad options'')))), example_world\<lparr>rpc := Suc 0\<rparr>)
   \<and> call_create create_rejecting Undefined [Undefined, Object 6] example_world =
        (Returned (Rejected (Thrown (String (js ''no channel'')))), example_world\<lparr>rpc := Suc 0\<rparr>)
   \<and> call_create (wrapCreateStub (GoogleCloudGrpc None\<lparr>inst_client := Some 1\<rparr>) create_rejecting)
        Undefined [Undefined, Object 6] example_world =
        (Returned (Rejected (Thrown (String (js ''no channel'')))), example_world\<lparr>rpc := Suc 0\<rparr>)
   \<and> call_create create_pending Undefined [Undefined, Object 6] example_world =
        (Returned Pending, example_world\<lparr>rpc := Suc 0\<rparr>)
   \<and> call_create (wrapCreateStub (GoogleCloudGrpc None\<lparr>inst_client := Some 1\<rparr>) create_pending)
        Undefined [Undefined, Object 6] example_world =
        (Returned Pending, example_world\<lparr>rpc := Suc 0\<rparr>)
   \<and> invoke (stub_get example_stub (js ''failing'')) (Object (self example_stub)) [] example_world =
        (Inl (Thrown (String (js ''UNAVAILABLE''))), example_world\<lparr>rpc := Suc 0\<rparr>)
   \<and> invoke (stub_get (fillGrpcFunction (Some 1) example_stub (String (js ''pubsub''))
          (js ''failing'')) (js ''failing'')) (Object 3) [] example_world =
        (Inl (Thrown (String (js ''UNAVAILABLE''))), example_world\<lparr>rpc := Suc 0\<rparr>)"
proof -
  let ?inst = "GoogleCloudGrpc None\<lparr>inst_client := Some 1\<rparr>"
  let ?args = "[Undefined, Object 6]"
  let ?w1 = "example_world\<lparr>rpc := Suc 0\<rparr>"
  have t: "typed_options example_world ?args"
    by (simp add: typed_options_def get_property_def arg_def example_world_def)
  have c1: "call_create create_throwing Undefined ?args example_world =
      (Threw (Thrown (String (js ''bad options''))), ?w1)"
    by (simp add: create_throwing_def example_world_def)
  have c2: "call_create create_rejecting Undefined ?args example_world =
      (Returned (Rejected (Thrown (String (js ''no channel'')))), ?w1)"
    by (simp add: create_rejecting_def example_world_def)
  have c3: "call_create create_pending Undefined ?args example_world = (Returned Pending, ?w1)"
    by (simp add: create_pending_def example_world_def)
  have m: "is_function (stub_get example_stub (js ''failing''))
      \<and> \<not> requestStream (stub_get example_stub (js ''failing''))
      \<and> \<not> responseStream (stub_get example_stub (js ''failing''))"
    by (simp add: stub_get_def example_stub_def failing_def)
  have f: "invoke (stub_get example_stub (js ''failing'')) (Object (self example_stub)) []
      example_world = (Inl (Thrown (String (js ''UNAVAILABLE''))), ?w1)"
    by (simp add: stub_get_def example_stub_def failing_def example_world_def)
  have r1: "call_create (wrapCreateStub ?inst create_throwing) Undefined ?args example_world =
      (Returned (Rejected (Thrown (String (js ''bad options'')))), ?w1)"
    using failures_propagate [of example_world ?args create_throwing Undefined
        "Thrown (String (js ''bad options''))" ?w1 ?inst] t c1
    by blast
  have r2: "call_create (wrapCreateStub ?inst create_rejecting) Undefined ?args example_world =
      (Returned (Rejected (Thrown (String (js ''no channel'')))), ?w1)"
    using failures_propagate [of example_world ?args create_rejecting Undefined
        "Thrown (String (js ''no channel''))" ?w1 ?inst] t c2
    by blast
  have r3: "call_create (wrapCreateStub ?inst create_pending) Undefined ?args example_world =
      (Returned Pending, ?w1)"
    using failures_propagate [of example_world ?args create_pending Undefined _ ?w1 ?inst] t c3
    by blast
  have r4: "invoke (stub_get (fillGrpcFunction (Some 1) example_stub (String (js ''pubsub''))
          (js ''failing'')) (js ''failing'')) (Object 3) [] example_world =
        (Inl (Thrown (String (js ''UNAVAILABLE''))), ?w1)"
    using failures_propagate [of _ _ _ _ "Thrown (String (js ''UNAVAILABLE''))" _ _ example_stub
        "js ''failing''" "[]" example_world ?w1 "Some 1" "String (js ''pubsub'')" "Object 3"] m f
    by blast
  from t c1 r1 c2 r2 c3 r3 f r4 show ?thesis
    by (intro conjI)
qed

theorem install_library_missing_witness:
  "fst (install (GoogleCloudGrpc (Some \<lparr>optional = Some True\<rparr>)) 1
      (Inl (Thrown (String (js ''Cannot find module''))) :: nat modules)) = Inr ()
   \<and> fst (install (GoogleCloudGrpc (Some \<lparr>optional = Some False\<rparr>)) 1
      (Inl (Thrown (String (js ''Cannot find module''))) :: nat modules))
      = Inl (Thrown (String (js ''Cannot find module'')))
   \<and> fst (install (GoogleCloudGrpc None) 1
      (Inl (Thrown (String (js ''Cannot find module''))) :: nat modules))
      = Inl (Thrown (String (js ''Cannot find module'')))"
  using install_library_missing [of "Some \<lparr>optional = Some True\<rparr>" 1
      "Thrown (String (js ''Cannot find module''))", where ?'r = nat]
    install_library_missing [of "Some \<lparr>optional = Some False\<rparr>" 1
      "Thrown (String (js ''Cannot find module''))", where ?'r = nat]
    install_library_missing [of None 1 "Thrown (String (js ''Cannot find module''))", where ?'r = nat]
  by simp

end
